theory Spec2Isabelle
  imports Main "HOL-Library.Word"
begin

section \<open>Typed layout copier\<close>

subsection \<open>Element types and C++ scalar types\<close>

text \<open>
  Modelled from the spec: the enumeration behind \<open>ov::element::Type\<close> is declared outside
  the sources. It has the element types of the data model (64/32/16-bit floats, signed and
  unsigned 8/16/32/64-bit integers) and \<open>ov::element::undefined\<close>, which the tensor entry
  point puts into its type-erased layout.
\<close>

datatype element_type =
  undefined_t | f16 | f32 | f64 | i8 | i16 | i32 | i64 | u8 | u16 | u32 | u64

text \<open>
  Modelled from the spec: \<open>ov::element::Type::size\<close>, the size of one element in bytes,
  is the bit width the type is named after, in bytes. \<open>undefined_t\<close> names no width; it
  is given no bytes here.
\<close>

fun et_size :: "element_type \<Rightarrow> nat" where
  "et_size undefined_t = 0"
| "et_size f16 = 2"
| "et_size f32 = 4"
| "et_size f64 = 8"
| "et_size i8 = 1"
| "et_size i16 = 2"
| "et_size i32 = 4"
| "et_size i64 = 8"
| "et_size u8 = 1"
| "et_size u16 = 2"
| "et_size u32 = 4"
| "et_size u64 = 8"

text \<open>The C++ scalar types that the conversion table instantiates the two loops with.\<close>

datatype c_type =
  c_double | c_float | c_float16 | c_int16 | c_uint16 | c_int32 | c_uint32 | c_int64 | c_uint64

fun sizeof :: "c_type \<Rightarrow> nat" where
  "sizeof c_double = 8"
| "sizeof c_float = 4"
| "sizeof c_float16 = 2"
| "sizeof c_int16 = 2"
| "sizeof c_uint16 = 2"
| "sizeof c_int32 = 4"
| "sizeof c_uint32 = 4"
| "sizeof c_int64 = 8"
| "sizeof c_uint64 = 8"

fun is_integer :: "c_type \<Rightarrow> bool" where
  "is_integer c_double = False"
| "is_integer c_float = False"
| "is_integer c_float16 = False"
| "is_integer _ = True"

fun is_signed :: "c_type \<Rightarrow> bool" where
  "is_signed c_uint16 = False"
| "is_signed c_uint32 = False"
| "is_signed c_uint64 = False"
| "is_signed _ = True"

subsection \<open>Memory\<close>

text \<open>
  A pointer is \<open>None\<close> (the null pointer) or the bytes of the region it points to. A
  scalar object is read and written through its object representation, little endian as
  on the hosts the plugin runs on; its value is kept as the bit pattern, a natural number
  below \<open>2 ^ (8 * sizeof t)\<close>.
\<close>

type_synonym byte = "8 word"
type_synonym buffer = "byte list"
type_synonym ptr = "buffer option"

fun from_bytes :: "byte list \<Rightarrow> nat" where
  "from_bytes [] = 0"
| "from_bytes (b # bs) = unat b + 256 * from_bytes bs"

fun to_bytes :: "nat \<Rightarrow> nat \<Rightarrow> byte list" where
  "to_bytes 0 v = []"
| "to_bytes (Suc n) v = of_nat (v mod 256) # to_bytes n (v div 256)"

text \<open>
  Thrown exceptions carry the pieces streamed into their message; an access outside a
  buffer or through the null pointer has no defined behaviour in C++ and is an outcome of
  its own.
\<close>

datatype msg_part = Txt string | Et element_type

datatype error =
  AssertFailure "msg_part list"
| Exception "msg_part list"
| Undefined_behaviour

text \<open>\<open>p[i]\<close> for \<open>const t* p\<close>, and \<open>p[i] = v\<close> for \<open>t* p\<close>.\<close>

definition load :: "c_type \<Rightarrow> buffer \<Rightarrow> nat \<Rightarrow> error + nat" where
  "load t buf i =
     (if (i + 1) * sizeof t \<le> length buf
      then Inr (from_bytes (take (sizeof t) (drop (i * sizeof t) buf)))
      else Inl Undefined_behaviour)"

definition store :: "c_type \<Rightarrow> buffer \<Rightarrow> nat \<Rightarrow> nat \<Rightarrow> error + buffer" where
  "store t buf i v =
     (if (i + 1) * sizeof t \<le> length buf
      then Inr (take (i * sizeof t) buf @ to_bytes (sizeof t) v @ drop ((i + 1) * sizeof t) buf)
      else Inl Undefined_behaviour)"

text \<open>\<open>std::memcpy(dst, src, n)\<close>.\<close>

definition memcpy :: "ptr \<Rightarrow> ptr \<Rightarrow> nat \<Rightarrow> error + buffer" where
  "memcpy dst src n =
     (case (dst, src) of
        (Some d, Some s) \<Rightarrow>
          if n \<le> length s \<and> n \<le> length d then Inr (take n s @ drop n d)
          else Inl Undefined_behaviour
      | _ \<Rightarrow> Inl Undefined_behaviour)"

subsection \<open>Layouts\<close>

text \<open>
  Modelled from the spec: \<open>cldnn::tensor\<close> is declared outside the sources. It is the
  canonical decomposition of a shape into one batch axis, one feature axis and four spatial
  axes; the loop reads them as \<open>batch[0]\<close>, \<open>feature[0]\<close> and \<open>spatial[0]\<close> to
  \<open>spatial[3]\<close> and builds an index as \<open>cldnn::tensor(b, f, x, y, z, w)\<close>, the spatial
  coordinates in the order of the axes 0 to 3.
\<close>

record tensor =
  batch0 :: int
  feature0 :: int
  spatial0 :: int
  spatial1 :: int
  spatial2 :: int
  spatial3 :: int

definition mk_tensor :: "int \<Rightarrow> int \<Rightarrow> int \<Rightarrow> int \<Rightarrow> int \<Rightarrow> int \<Rightarrow> tensor" where
  "mk_tensor b f x y z w =
     \<lparr>batch0 = b, feature0 = f, spatial0 = x, spatial1 = y, spatial2 = z, spatial3 = w\<rparr>"

text \<open>
  Modelled from the spec: \<open>cldnn::padding\<close> is declared outside the sources. It holds the
  extra elements before and after each axis, converts to \<open>true\<close> when one of them is not
  zero, and the default-constructed padding has none.
\<close>

record padding =
  lower_size :: "int list"
  upper_size :: "int list"

definition padding_bool :: "padding \<Rightarrow> bool" where
  "padding_bool p = (list_ex (\<lambda>e. e \<noteq> 0) (lower_size p) \<or> list_ex (\<lambda>e. e \<noteq> 0) (upper_size p))"

definition padding_default :: padding where
  "padding_default = \<lparr>lower_size = [], upper_size = []\<rparr>"

datatype format = bfyx | other_format nat

text \<open>
  Modelled from the spec: \<open>cldnn::layout\<close> is declared outside the sources. It is kept as
  the four values its constructor is given in the entry point for two tensors: a shape, an
  element type, a format and a padding.
\<close>

record layout =
  partial_shape :: "int list"
  data_type :: element_type
  format :: format
  data_padding :: padding

text \<open>
  What the copier uses and the sources do not define is taken as a parameter: the
  conversions between scalar types of which one is a floating-point type (on bit
  patterns), and the two methods of \<open>cldnn::layout\<close> that the padded loop calls.
\<close>

record runtime =
  fp_cast :: "c_type \<Rightarrow> c_type \<Rightarrow> nat \<Rightarrow> nat"
  get_tensor :: "layout \<Rightarrow> tensor"
  get_linear_offset :: "layout \<Rightarrow> tensor \<Rightarrow> nat"

subsection \<open>Conversions\<close>

text \<open>
  \<open>static_cast<d>(v)\<close> for \<open>v\<close> of type \<open>s\<close>. Between integer types the value is kept
  modulo \<open>2 ^ (8 * sizeof d)\<close>, a signed source being sign-extended first; a conversion to
  the same type changes nothing.
\<close>

definition int_cast :: "c_type \<Rightarrow> c_type \<Rightarrow> nat \<Rightarrow> nat" where
  "int_cast s d v =
     (let value = (if is_signed s \<and> 2 ^ (8 * sizeof s - 1) \<le> v
                   then int v - 2 ^ (8 * sizeof s) else int v)
      in nat (value mod 2 ^ (8 * sizeof d)))"

definition static_cast :: "runtime \<Rightarrow> c_type \<Rightarrow> c_type \<Rightarrow> nat \<Rightarrow> nat" where
  "static_cast R s d v =
     (if s = d then v
      else if is_integer s \<and> is_integer d then int_cast s d v
      else fp_cast R s d v mod 2 ^ (8 * sizeof d))"

subsection \<open>The two conversion loops\<close>

text \<open>\<open>for (size_t i = 0; i < size; i++) dst[i] = static_cast<dst_t>(src[i]);\<close>\<close>

function no_pad_loop ::
  "runtime \<Rightarrow> c_type \<Rightarrow> c_type \<Rightarrow> buffer \<Rightarrow> nat \<Rightarrow> nat \<Rightarrow> buffer \<Rightarrow> error + buffer" where
  "no_pad_loop R s d src i n dst =
     (if i < n
      then (case load s src i of
              Inl e \<Rightarrow> Inl e
            | Inr v \<Rightarrow>
                (case store d dst i (static_cast R s d v) of
                   Inl e \<Rightarrow> Inl e
                 | Inr dst' \<Rightarrow> no_pad_loop R s d src (i + 1) n dst'))
      else Inr dst)"
  by pat_completeness auto
termination
  by (relation "measure (\<lambda>(R, s, d, src, i, n, dst). n - i)") auto

declare no_pad_loop.simps [simp del]

definition convert_and_copy_no_pad ::
  "runtime \<Rightarrow> c_type \<Rightarrow> c_type \<Rightarrow> ptr \<Rightarrow> ptr \<Rightarrow> nat \<Rightarrow> error + buffer" where
  "convert_and_copy_no_pad R s d src dst n =
     (case (src, dst) of
        (Some sb, Some db) \<Rightarrow> no_pad_loop R s d sb 0 n db
      | _ \<Rightarrow> Inl (AssertFailure [Txt ''[GPU] Src or Dst ptr is null'']))"

text \<open>\<open>for (int64_t v = 0; v < n; v++) body\<close>, the state threaded through the body.\<close>

function for_loop ::
  "int \<Rightarrow> int \<Rightarrow> (int \<Rightarrow> 's \<Rightarrow> error + 's) \<Rightarrow> 's \<Rightarrow> error + 's" where
  "for_loop v n body st =
     (if v < n
      then (case body v st of Inl e \<Rightarrow> Inl e | Inr st' \<Rightarrow> for_loop (v + 1) n body st')
      else Inr st)"
  by pat_completeness auto
termination
  by (relation "measure (\<lambda>(v, n, body, st). nat (n - v))") auto

declare for_loop.simps [simp del]

text \<open>
  The innermost statement \<open>*dst++ = static_cast<dst_t>(src[layout.get_linear_offset(...)])\<close>;
  the state is the destination and the number of elements \<open>dst\<close> has advanced by.
\<close>

definition copy_element ::
  "runtime \<Rightarrow> c_type \<Rightarrow> c_type \<Rightarrow> ptr \<Rightarrow> layout \<Rightarrow> tensor \<Rightarrow> ptr \<times> nat \<Rightarrow> error + ptr \<times> nat" where
  "copy_element R s d src l idx st =
     (case (src, fst st) of
        (Some sb, Some db) \<Rightarrow>
          (case load s sb (get_linear_offset R l idx) of
             Inl e \<Rightarrow> Inl e
           | Inr v \<Rightarrow>
               (case store d db (snd st) (static_cast R s d v) of
                  Inl e \<Rightarrow> Inl e
                | Inr db' \<Rightarrow> Inr (Some db', snd st + 1)))
      | _ \<Rightarrow> Inl Undefined_behaviour)"

definition convert_and_copy_padded_source ::
  "runtime \<Rightarrow> c_type \<Rightarrow> c_type \<Rightarrow> ptr \<Rightarrow> ptr \<Rightarrow> layout \<Rightarrow> error + ptr" where
  "convert_and_copy_padded_source R s d src dst l =
     (let size = get_tensor R l in
      case
        for_loop 0 (batch0 size) (\<lambda>b.
          for_loop 0 (feature0 size) (\<lambda>f.
            for_loop 0 (spatial3 size) (\<lambda>w.
              for_loop 0 (spatial2 size) (\<lambda>z.
                for_loop 0 (spatial1 size) (\<lambda>y.
                  for_loop 0 (spatial0 size) (\<lambda>x.
                    copy_element R s d src l (mk_tensor b f x y z w)))))))
          (dst, 0)
      of Inl e \<Rightarrow> Inl e | Inr st \<Rightarrow> Inr (fst st))"

subsection \<open>Dispatch\<close>

text \<open>The \<open>CASE\<close> lines, in their order.\<close>

definition cases_table :: "(element_type \<times> element_type \<times> c_type \<times> c_type) list" where
  "cases_table =
     [(f64, f32, c_double, c_float),
      (i16, f32, c_int16, c_float),
      (u16, f32, c_uint16, c_float),
      (u64, i32, c_uint64, c_int32),
      (i64, i32, c_int64, c_int32),
      (u32, i32, c_uint32, c_int32),
      (f32, f64, c_float, c_double),
      (i32, i64, c_int32, c_int64),
      (i32, u64, c_int32, c_uint64),
      (i32, u32, c_int32, c_uint32),
      (f32, i16, c_float, c_int16),
      (f32, u16, c_float, c_uint16),
      (u32, i64, c_uint32, c_int64),
      (u32, u64, c_uint32, c_uint64),
      (f32, f32, c_float, c_float),
      (f16, f16, c_float16, c_float16),
      (f32, f16, c_float, c_float16),
      (f16, f32, c_float16, c_float)]"

definition find_case :: "element_type \<Rightarrow> element_type \<Rightarrow> (c_type \<times> c_type) option" where
  "find_case src_et dst_et =
     map_option (\<lambda>(s_et, d_et, s_type, d_type). (s_type, d_type))
       (find (\<lambda>(s_et, d_et, s_type, d_type). src_et = s_et \<and> dst_et = d_et) cases_table)"

text \<open>
  The core copy. The destination memory is the state: the result is how the call ended
  and the destination afterwards. The element count \<open>size\<close> is \<open>count\<close> here, and
  \<open>size * src_et.size()\<close> is a \<open>size_t\<close> product.
\<close>

definition finish :: "ptr \<Rightarrow> error + buffer \<Rightarrow> (error + unit) \<times> ptr" where
  "finish dst r = (case r of Inl e \<Rightarrow> (Inl e, dst) | Inr b \<Rightarrow> (Inr (), Some b))"

definition convert_and_copy ::
  "runtime \<Rightarrow> ptr \<Rightarrow> element_type \<Rightarrow> ptr \<Rightarrow> element_type \<Rightarrow> nat \<Rightarrow> layout \<Rightarrow> (error + unit) \<times> ptr" where
  "convert_and_copy R src_ptr src_et dst_ptr dst_et count l =
     (if count = 0 then (Inr (), dst_ptr)
      else if src_et = dst_et \<and> \<not> padding_bool (data_padding l)
      then finish dst_ptr (memcpy dst_ptr src_ptr ((count * et_size src_et) mod 2 ^ 64))
      else
        (case find_case src_et dst_et of
           Some (s_type, d_type) \<Rightarrow>
             if padding_bool (data_padding l)
             then (case convert_and_copy_padded_source R s_type d_type src_ptr dst_ptr l of
                     Inl e \<Rightarrow> (Inl e, dst_ptr) | Inr p \<Rightarrow> (Inr (), p))
             else finish dst_ptr (convert_and_copy_no_pad R s_type d_type src_ptr dst_ptr count)
         | None \<Rightarrow>
             (Inl (Exception [Txt ''[GPU] Unsupported element types combination for copy: '',
                              Et src_et, Txt '' -> '', Et dst_et]),
              dst_ptr)))"

subsection \<open>Entry points\<close>

text \<open>
  Modelled from the spec: \<open>cldnn::mem_lock\<close> and \<open>cldnn::memory\<close> are declared outside
  the sources. A lock object acquires the lock of its memory when it is constructed, in
  read mode where the source asks for it and in write mode otherwise, gives the host
  pointer to the bytes, and releases the lock when it is destroyed. Acquisitions and
  releases are recorded in a trace, with the run of the core copy between them.
\<close>

datatype mem_lock_type = read_mode | write_mode

definition mem_lock_default :: mem_lock_type where
  "mem_lock_default = write_mode"

type_synonym stream = nat

datatype event = Lock nat mem_lock_type stream | Unlock nat | Core_copy

record memory =
  mem_id :: nat
  get_layout :: layout
  mem_data :: ptr

definition mem_lock :: "memory \<Rightarrow> mem_lock_type \<Rightarrow> stream \<Rightarrow> event list \<Rightarrow> ptr \<times> event list" where
  "mem_lock mem mode st tr = (mem_data mem, tr @ [Lock (mem_id mem) mode st])"

definition mem_unlock :: "memory \<Rightarrow> event list \<Rightarrow> event list" where
  "mem_unlock mem tr = tr @ [Unlock (mem_id mem)]"

text \<open>The destructor of a \<open>std::unique_ptr\<close> to a lock object, which may hold none.\<close>

definition reset_lock :: "memory option \<Rightarrow> event list \<Rightarrow> event list" where
  "reset_lock lk tr = (case lk of None \<Rightarrow> tr | Some mem \<Rightarrow> mem_unlock mem tr)"

text \<open>
  Modelled from the spec: \<open>ov::ITensor\<close> and \<open>RemoteTensorImpl\<close> are declared outside
  the sources. A generic tensor has an element type and a shape; it is indirectly
  addressable, a \<open>RemoteTensorImpl\<close> with its bytes in a device memory, or directly
  addressable, with \<open>data()\<close> a host pointer.
\<close>

datatype itensor =
  HostTensor element_type "nat list" ptr
| RemoteTensorImpl element_type "nat list" memory

fun get_element_type :: "itensor \<Rightarrow> element_type" where
  "get_element_type (HostTensor et sh p) = et"
| "get_element_type (RemoteTensorImpl et sh mem) = et"

fun get_shape :: "itensor \<Rightarrow> nat list" where
  "get_shape (HostTensor et sh p) = sh"
| "get_shape (RemoteTensorImpl et sh mem) = sh"

text \<open>
  Modelled from the spec: \<open>ov::shape_size\<close> is the total logical element count, the product
  of the shape's dimensions.
\<close>

definition shape_size :: "nat list \<Rightarrow> nat" where
  "shape_size sh = prod_list sh"

text \<open>
  \<open>dynamic_cast<const RemoteTensorImpl*>(t)\<close> and what follows it: the pointer to the
  bytes, the lock object held (if one) and the trace.
\<close>

definition acquire ::
  "itensor \<Rightarrow> mem_lock_type \<Rightarrow> stream \<Rightarrow> event list \<Rightarrow> ptr \<times> memory option \<times> event list" where
  "acquire t mode st tr =
     (case t of
        RemoteTensorImpl et sh mem \<Rightarrow>
          (let (p, tr') = mem_lock mem mode st tr in (p, Some mem, tr'))
      | HostTensor et sh p \<Rightarrow> (p, None, tr))"

text \<open>
  The overload for a device memory handle. The result is how the core copy ended, the
  destination bytes afterwards and the trace; the locks are destroyed in the reverse order
  of their declaration on every way out of the function.
\<close>

definition convert_and_copy_memory ::
  "runtime \<Rightarrow> memory \<Rightarrow> itensor \<Rightarrow> stream \<Rightarrow> (error + unit) \<times> ptr \<times> event list" where
  "convert_and_copy_memory R src dst st =
     (let src_et = data_type (get_layout src);
          dst_et = get_element_type dst;
          count = shape_size (get_shape dst);
          (src_ptr, tr1) = mem_lock src read_mode st [];
          (dst_ptr, dst_lock, tr2) = acquire dst mem_lock_default st tr1;
          (r, dst') = convert_and_copy R src_ptr src_et dst_ptr dst_et count (get_layout src);
          tr3 = tr2 @ [Core_copy]
      in (r, dst', mem_unlock src (reset_lock dst_lock tr3)))"

text \<open>The layout that the overload for two tensors builds.\<close>

definition tensor_layout :: layout where
  "tensor_layout =
     \<lparr>partial_shape = [], data_type = undefined_t, format = bfyx, data_padding = padding_default\<rparr>"

definition convert_and_copy_tensor ::
  "runtime \<Rightarrow> itensor \<Rightarrow> itensor \<Rightarrow> stream \<Rightarrow> (error + unit) \<times> ptr \<times> event list" where
  "convert_and_copy_tensor R src dst st =
     (let src_et = get_element_type src;
          dst_et = get_element_type dst;
          count = shape_size (get_shape dst);
          (src_ptr, src_lock, tr1) = acquire src read_mode st [];
          (dst_ptr, dst_lock, tr2) = acquire dst mem_lock_default st tr1;
          (r, dst') = convert_and_copy R src_ptr src_et dst_ptr dst_et count tensor_layout;
          tr3 = tr2 @ [Core_copy]
      in (r, dst', reset_lock src_lock (reset_lock dst_lock tr3)))"

section \<open>Rank-normalizing rewrite of fully-connected nodes\<close>

text \<open>
  Modelled from the spec: the graph library is declared outside the sources. The graph is
  an arena of nodes, a node's identity being its index. A node has its operation with the
  nodes that feed it, its static output shape and its friendly name (empty until one is
  set). The shape that a new reshape node infers from its pattern is a parameter of the
  callback, as is the veto callback.
\<close>

type_synonym node_id = nat

datatype op =
  Parameter
| Constant "int list"
| Reshape node_id node_id bool
| FullyConnected node_id node_id node_id
| Other "node_id list"

record node =
  op :: op
  out_shape :: "nat list"
  friendly_name :: string

type_synonym graph = "node list"

definition lookup :: "graph \<Rightarrow> node_id \<Rightarrow> node option" where
  "lookup g i = (if i < length g then Some (g ! i) else None)"

text \<open>\<open>std::make_shared\<close> of a node: it joins the arena, the result is its identity.\<close>

definition make_node :: "graph \<Rightarrow> op \<Rightarrow> nat list \<Rightarrow> node_id \<times> graph" where
  "make_node g o' sh = (length g, g @ [\<lparr>op = o', out_shape = sh, friendly_name = []\<rparr>])"

definition set_friendly_name :: "graph \<Rightarrow> node_id \<Rightarrow> string \<Rightarrow> graph" where
  "set_friendly_name g i name = (if i < length g then g[i := (g ! i)\<lparr>friendly_name := name\<rparr>] else g)"

text \<open>
  Modelled from the spec: \<open>ngraph::replace_node\<close> is defined outside the sources. It
  redirects every edge that refers to the replaced node to the replacement.
\<close>

definition redirect_id :: "node_id \<Rightarrow> node_id \<Rightarrow> node_id \<Rightarrow> node_id" where
  "redirect_id target replacement i = (if i = target then replacement else i)"

fun redirect :: "node_id \<Rightarrow> node_id \<Rightarrow> op \<Rightarrow> op" where
  "redirect t r Parameter = Parameter"
| "redirect t r (Constant vs) = Constant vs"
| "redirect t r (Reshape a b z) = Reshape (redirect_id t r a) (redirect_id t r b) z"
| "redirect t r (FullyConnected a b c) =
     FullyConnected (redirect_id t r a) (redirect_id t r b) (redirect_id t r c)"
| "redirect t r (Other ins) = Other (map (redirect_id t r) ins)"

definition replace_node :: "graph \<Rightarrow> node_id \<Rightarrow> node_id \<Rightarrow> graph" where
  "replace_node g target replacement = map (\<lambda>n. n\<lparr>op := redirect target replacement (op n)\<rparr>) g"

text \<open>
  Modelled from the spec: \<open>op::util::reshapeTo\<close> is defined outside the sources. It
  appends a reshape of a node's output to a given shape, the shape being a new constant.
\<close>

definition reshapeTo ::
  "(nat list \<Rightarrow> int list \<Rightarrow> bool \<Rightarrow> nat list) \<Rightarrow> graph \<Rightarrow> node_id \<Rightarrow> nat list \<Rightarrow> nat list
     \<Rightarrow> node_id \<times> graph" where
  "reshapeTo infer g input input_shape sh =
     (let (c, g1) = make_node g (Constant (map int sh)) [length sh]
      in make_node g1 (Reshape input c True) (infer input_shape (map int sh) True))"

text \<open>
  \<open>static_cast<int64_t>(n)\<close> for a \<open>size_t\<close> value: the value modulo \<open>2 ^ 64\<close>, read
  as two's complement.
\<close>

definition static_cast_int64 :: "nat \<Rightarrow> int" where
  "static_cast_int64 n =
     (if n mod 2 ^ 64 < 2 ^ 63 then int (n mod 2 ^ 64) else int (n mod 2 ^ 64) - 2 ^ 64)"

text \<open>
  The callback of the matcher, for the match root \<open>root\<close>. The result is the returned
  flag and the graph afterwards. \<open>back()\<close> of an empty shape and \<open>[0]\<close> of an empty
  shape have no defined behaviour, and neither has a node identity that the graph does not
  have.
\<close>

definition callback ::
  "(node \<Rightarrow> bool) \<Rightarrow> (nat list \<Rightarrow> int list \<Rightarrow> bool \<Rightarrow> nat list) \<Rightarrow> graph \<Rightarrow> node_id
     \<Rightarrow> error + bool \<times> graph" where
  "callback transformation_callback infer g root =
     (case lookup g root of
        None \<Rightarrow> Inl Undefined_behaviour
      | Some fc \<Rightarrow>
          (case op fc of
             FullyConnected in0 in1 in2 \<Rightarrow>
               if transformation_callback fc then Inr (False, g)
               else
                 (case lookup g in0 of
                    None \<Rightarrow> Inl Undefined_behaviour
                  | Some data \<Rightarrow>
                      (let input_shape = out_shape data;
                           output_shape = out_shape fc
                       in if length input_shape = 2 then Inr (False, g)
                          else if input_shape = [] then Inl Undefined_behaviour
                          else
                            (let reshape_shape = [- 1, static_cast_int64 (last input_shape)];
                                 (c, g1) = make_node g (Constant reshape_shape) [2];
                                 (reshape, g2) =
                                   make_node g1 (Reshape in0 c True)
                                     (infer input_shape reshape_shape True);
                                 g3 = set_friendly_name g2 reshape (friendly_name fc @ ''/Reshape'')
                             in case (infer input_shape reshape_shape True,
                                      map_option out_shape (lookup g in1)) of
                                  (I_dim # _, Some (O_dim # _)) \<Rightarrow>
                                    (let output_shape_new = [I_dim, O_dim];
                                         (fc_new, g4) =
                                           make_node g3 (FullyConnected reshape in1 in2)
                                             output_shape_new
                                     in if output_shape \<noteq> output_shape_new
                                        then
                                          (let (reshape_output, g5) =
                                                 reshapeTo infer g4 fc_new output_shape_new
                                                   output_shape;
                                               g6 = set_friendly_name g5 reshape_output
                                                      (friendly_name fc);
                                               g7 = set_friendly_name g6 root
                                                      (friendly_name fc @ ''/FC'')
                                           in Inr (True, replace_node g7 root reshape_output))
                                        else
                                          (let g5 = set_friendly_name g4 fc_new (friendly_name fc)
                                           in Inr (True, replace_node g5 root fc_new)))
                                | _ \<Rightarrow> Inl Undefined_behaviour)))
           | _ \<Rightarrow> Inr (False, g)))"

section \<open>Notions used in the statements\<close>

text \<open>
  Running a body over a list of indices, the state threaded through and the first error
  ending the run: what a \<open>for\<close> loop does over the values of its variable.
\<close>

fun iter :: "('a \<Rightarrow> 's \<Rightarrow> error + 's) \<Rightarrow> 'a list \<Rightarrow> 's \<Rightarrow> error + 's" where
  "iter body [] st = Inr st"
| "iter body (x # xs) st = (case body x st of Inl e \<Rightarrow> Inl e | Inr st' \<Rightarrow> iter body xs st')"

text \<open>
  The object with index \<open>i\<close> of an array of \<open>t\<close> in a buffer, and the bytes of the
  converted objects that are found at a list of source offsets.
\<close>

definition element :: "c_type \<Rightarrow> buffer \<Rightarrow> nat \<Rightarrow> nat" where
  "element t buf i = from_bytes (take (sizeof t) (drop (i * sizeof t) buf))"

definition converted :: "runtime \<Rightarrow> c_type \<Rightarrow> c_type \<Rightarrow> buffer \<Rightarrow> nat list \<Rightarrow> buffer" where
  "converted R s d src offs =
     concat (map (\<lambda>off. to_bytes (sizeof d) (static_cast R s d (element s src off))) offs)"

text \<open>
  The logical index space of a tensor in the order of the claim: batch outermost, then
  feature, then the spatial axes 3, 2, 1 and 0, the last one running fastest.
\<close>

definition traversal :: "tensor \<Rightarrow> tensor list" where
  "traversal dims =
     concat (map (\<lambda>b. concat (map (\<lambda>f. concat (map (\<lambda>w. concat (map (\<lambda>z.
       concat (map (\<lambda>y. map (\<lambda>x. mk_tensor b f x y z w) [0..spatial0 dims - 1])
         [0..spatial1 dims - 1])) [0..spatial2 dims - 1])) [0..spatial3 dims - 1]))
           [0..feature0 dims - 1])) [0..batch0 dims - 1])"

text \<open>
  The exception for a pair of element types that the table does not have.
\<close>

definition unsupported :: "element_type \<Rightarrow> element_type \<Rightarrow> error" where
  "unsupported src_et dst_et =
     Exception [Txt ''[GPU] Unsupported element types combination for copy: '',
                Et src_et, Txt '' -> '', Et dst_et]"

text \<open>
  What a tensor contributes to the trace when it is acquired and released, and the
  pointer to its bytes.
\<close>

definition acquisition :: "itensor \<Rightarrow> mem_lock_type \<Rightarrow> stream \<Rightarrow> event list" where
  "acquisition t mode st =
     (case t of RemoteTensorImpl et sh mem \<Rightarrow> [Lock (mem_id mem) mode st] | HostTensor et sh p \<Rightarrow> [])"

definition release :: "itensor \<Rightarrow> event list" where
  "release t =
     (case t of RemoteTensorImpl et sh mem \<Rightarrow> [Unlock (mem_id mem)] | HostTensor et sh p \<Rightarrow> [])"

definition host_ptr :: "itensor \<Rightarrow> ptr" where
  "host_ptr t = (case t of RemoteTensorImpl et sh mem \<Rightarrow> mem_data mem | HostTensor et sh p \<Rightarrow> p)"

section \<open>Example inputs\<close>

text \<open>
  Layout methods for the examples: \<open>bfyx\<close> addressing of a four-dimensional shape with
  padding along the innermost axis. The padded layout is a 2 x 2 x 1 x 2 tensor of
  half-precision elements with one padding element before each row of two.
\<close>

definition bfyx_runtime :: runtime where
  "bfyx_runtime =
     \<lparr>fp_cast = (\<lambda>s d v. v),
      get_tensor = (\<lambda>l. case partial_shape l of
                           [b, f, y, x] \<Rightarrow> mk_tensor b f x y 1 1
                         | _ \<Rightarrow> mk_tensor 1 1 1 1 1 1),
      get_linear_offset = (\<lambda>l t.
         case (partial_shape l, lower_size (data_padding l), upper_size (data_padding l)) of
           ([b, f, y, x], [lb, lf, ly, lx], [ub, uf, uy, ux]) \<Rightarrow>
             nat (((batch0 t * f + feature0 t) * y + spatial1 t) * (lx + x + ux) + lx + spatial0 t)
         | _ \<Rightarrow> 0)\<rparr>"

definition padded_layout :: layout where
  "padded_layout =
     \<lparr>partial_shape = [2, 2, 1, 2], data_type = f16, format = bfyx,
      data_padding = \<lparr>lower_size = [0, 0, 0, 1], upper_size = [0, 0, 0, 0]\<rparr>\<rparr>"

definition example_src :: buffer where
  "example_src =
     [0, 100, 1, 101, 2, 102, 3, 103, 4, 104, 5, 105,
      6, 106, 7, 107, 8, 108, 9, 109, 10, 110, 11, 111]"

definition example_dst :: buffer where
  "example_dst = [255, 255, 255, 255, 255, 255, 255, 255, 255, 255, 255, 255, 255, 255, 255, 255, 255, 255]"

definition example_memory :: memory where
  "example_memory = \<lparr>mem_id = 1, get_layout = padded_layout, mem_data = Some example_src\<rparr>"

definition example_remote :: itensor where
  "example_remote =
     RemoteTensorImpl i8 [2] \<lparr>mem_id = 2, get_layout = tensor_layout, mem_data = Some [7, 7]\<rparr>"

text \<open>
  For the rewrite: shape inference of a reshape to \<open>[-1, K]\<close>, and graphs with a
  fully-connected node (node 3) over a data input of rank 3 or 2, read by node 4.
\<close>

definition example_infer :: "nat list \<Rightarrow> int list \<Rightarrow> bool \<Rightarrow> nat list" where
  "example_infer input_shape pattern special_zero =
     (case pattern of
        [m, k] \<Rightarrow> if m = - 1 \<and> 0 < k then [prod_list input_shape div nat k, nat k]
                  else map nat pattern
      | _ \<Rightarrow> map nat pattern)"

definition example_graph :: graph where
  "example_graph =
     [\<lparr>op = Parameter, out_shape = [2, 3, 4], friendly_name = ''data''\<rparr>,
      \<lparr>op = Constant [], out_shape = [5, 4], friendly_name = ''weights''\<rparr>,
      \<lparr>op = Constant [], out_shape = [5], friendly_name = ''bias''\<rparr>,
      \<lparr>op = FullyConnected 0 1 2, out_shape = [2, 3, 5], friendly_name = ''fc''\<rparr>,
      \<lparr>op = Other [3], out_shape = [2, 3, 5], friendly_name = ''result''\<rparr>]"

definition example_graph2 :: graph where
  "example_graph2 =
     [\<lparr>op = Parameter, out_shape = [2, 3, 4], friendly_name = ''data''\<rparr>,
      \<lparr>op = Constant [], out_shape = [5, 4], friendly_name = ''weights''\<rparr>,
      \<lparr>op = Constant [], out_shape = [5], friendly_name = ''bias''\<rparr>,
      \<lparr>op = FullyConnected 0 1 2, out_shape = [6, 5], friendly_name = ''fc''\<rparr>,
      \<lparr>op = Other [3], out_shape = [6, 5], friendly_name = ''result''\<rparr>]"



section \<open>Bytes, loads and stores\<close>

lemma length_to_bytes [simp]: "length (to_bytes n v) = n"
  by (induction n arbitrary: v) auto

lemma to_bytes_numeral [simp]:
  "to_bytes (numeral k) v = of_nat (v mod 256) # to_bytes (pred_numeral k) (v div 256)"
  by (simp only: numeral_eq_Suc [of k] to_bytes.simps)

lemma from_bytes_bound: "from_bytes bs < 256 ^ length bs"
proof (induction bs)
  case Nil show ?case by simp
next
  case (Cons b bs)
  have "unat b < 256" using unsigned_less [of b] by simp
  with Cons show ?case by simp
qed

lemma from_to_bytes: "from_bytes (to_bytes n v) = v mod 256 ^ n"
proof (induction n arbitrary: v)
  case 0 show ?case by simp
next
  case (Suc n)
  have "unat (of_nat (v mod 256) :: byte) = v mod 256"
    by (simp add: unat_of_nat)
  then show ?case using Suc by (simp add: mod_mult2_eq)
qed

lemma sizeof_pos [simp]: "0 < sizeof t"
  by (cases t) auto

lemma element_bound: "element t buf i < 256 ^ sizeof t"
proof -
  have "element t buf i < 256 ^ length (take (sizeof t) (drop (i * sizeof t) buf))"
    unfolding element_def by (rule from_bytes_bound)
  also have "\<dots> \<le> (256::nat) ^ sizeof t"
    by (rule power_increasing) auto
  finally show ?thesis .
qed

lemma pow256: "(256::nat) ^ n = 2 ^ (8 * n)"
  by (simp add: power_mult)

lemma static_cast_bound:
  assumes "v < 256 ^ sizeof s"
  shows "static_cast R s d v < 256 ^ sizeof d"
proof -
  have "nat (x mod 2 ^ (8 * sizeof d)) < 256 ^ sizeof d" for x :: int
  proof -
    have "x mod 2 ^ (8 * sizeof d) < 2 ^ (8 * sizeof d)" by simp
    then show ?thesis by (simp add: pow256 nat_less_iff)
  qed
  moreover have "y mod 2 ^ (8 * sizeof d) < 256 ^ sizeof d" for y :: nat
    by (simp add: pow256)
  ultimately show ?thesis using assms
    by (auto simp: static_cast_def int_cast_def Let_def)
qed

lemma load_in_range:
  "(i + 1) * sizeof t \<le> length buf \<Longrightarrow> load t buf i = Inr (element t buf i)"
  by (simp add: load_def element_def)

lemma store_append:
  assumes "length pre = k * sizeof d" "sizeof d \<le> length rest"
  shows "store d (pre @ rest) k v = Inr (pre @ to_bytes (sizeof d) v @ drop (sizeof d) rest)"
  using assms by (simp add: store_def)

lemma length_converted [simp]: "length (converted R s d src offs) = length offs * sizeof d"
  by (induction offs) (auto simp: converted_def)

lemma converted_Cons:
  "converted R s d src (off # offs) =
     to_bytes (sizeof d) (static_cast R s d (element s src off)) @ converted R s d src offs"
  by (simp add: converted_def)

lemma load_skip:
  assumes "length chunk = sizeof t"
  shows "load t (chunk @ tl0) (Suc k) = load t tl0 k"
  using assms by (simp add: load_def)

lemma load_first:
  assumes "v < 256 ^ sizeof t"
  shows "load t (to_bytes (sizeof t) v @ tl0) 0 = Inr v"
  using assms by (simp add: load_def from_to_bytes)

lemma load_converted:
  "k < length offs \<Longrightarrow>
     load d (converted R s d src offs @ rest) k = Inr (static_cast R s d (element s src (offs ! k)))"
proof (induction offs arbitrary: k)
  case Nil
  then show ?case by simp
next
  case (Cons off offs)
  show ?case
  proof (cases k)
    case 0
    then show ?thesis
      by (simp add: converted_Cons load_first static_cast_bound element_bound)
  next
    case (Suc j)
    with Cons.prems have "j < length offs" by simp
    from Cons.IH [OF this] Suc show ?thesis
      by (simp add: converted_Cons load_skip)
  qed
qed

lemma take_drop_take_append:
  assumes "k + m \<le> n" "n \<le> length a"
  shows "take m (drop k (take n a @ b)) = take m (drop k a)"
proof -
  have "drop k (take n a @ b) = take (n - k) (drop k a) @ b"
    using assms by (simp add: drop_take)
  moreover have "m \<le> length (take (n - k) (drop k a))"
    using assms by simp
  ultimately have "take m (drop k (take n a @ b)) = take m (take (n - k) (drop k a))"
    by simp
  also have "\<dots> = take m (drop k a)"
    using assms by (simp add: min_def)
  finally show ?thesis .
qed

lemma load_take_append:
  assumes "(i + 1) * sizeof t \<le> n" "n \<le> length a"
  shows "load t (take n a @ b) i = Inr (element t a i)"
proof -
  have "i * sizeof t + sizeof t \<le> n" using assms(1) by (simp add: add.commute)
  then have "take (sizeof t) (drop (i * sizeof t) (take n a @ b)) =
        take (sizeof t) (drop (i * sizeof t) a)"
    using assms(2) by (rule take_drop_take_append)
  moreover have "(i + 1) * sizeof t \<le> length (take n a @ b)" using assms by simp
  ultimately show ?thesis by (simp add: load_def element_def)
qed

section \<open>The loops in closed form\<close>

lemma for_loop_iter: "for_loop v n body st = iter body [v..n - 1] st"
proof (induction v n body st rule: for_loop.induct)
  case (1 v n body st)
  show ?case
  proof (cases "v < n")
    case True
    then have "[v..n - 1] = v # [v + 1..n - 1]" by (simp add: upto_rec1)
    with True 1 show ?thesis by (subst for_loop.simps) (simp split: sum.splits)
  next
    case False
    then show ?thesis by (subst for_loop.simps) simp
  qed
qed

lemma iter_append:
  "iter body (xs @ ys) st =
     (case iter body xs st of Inl e \<Rightarrow> Inl e | Inr st' \<Rightarrow> iter body ys st')"
  by (induction xs arbitrary: st) (auto split: sum.splits)

lemma iter_concat_map: "iter body (concat (map F xs)) st = iter (\<lambda>a. iter body (F a)) xs st"
  by (induction xs arbitrary: st) (auto simp: iter_append split: sum.splits)

lemma iter_map: "iter body (map h ys) st = iter (\<lambda>b. body (h b)) ys st"
  by (induction ys arbitrary: st) (auto split: sum.splits)

lemma nested_loops_traversal:
  "for_loop 0 (batch0 dims) (\<lambda>b.
     for_loop 0 (feature0 dims) (\<lambda>f.
       for_loop 0 (spatial3 dims) (\<lambda>w.
         for_loop 0 (spatial2 dims) (\<lambda>z.
           for_loop 0 (spatial1 dims) (\<lambda>y.
             for_loop 0 (spatial0 dims) (\<lambda>x. body (mk_tensor b f x y z w))))))) st
   = iter body (traversal dims) st"
  unfolding traversal_def for_loop_iter iter_concat_map iter_map ..

lemma iter_copy_element:
  assumes "length pre = k * sizeof d"
    and "length cs * sizeof d \<le> length rest"
    and "\<forall>c\<in>set cs. (get_linear_offset R l c + 1) * sizeof s \<le> length src"
  shows "iter (copy_element R s d (Some src) l) cs (Some (pre @ rest), k) =
           Inr (Some (pre @ converted R s d src (map (get_linear_offset R l) cs)
                        @ drop (length cs * sizeof d) rest), k + length cs)"
  using assms
proof (induction cs arbitrary: pre rest k)
  case Nil
  then show ?case by (simp add: converted_def)
next
  case (Cons c cs)
  let ?v = "static_cast R s d (element s src (get_linear_offset R l c))"
  let ?pre = "pre @ to_bytes (sizeof d) ?v"
  have sz: "sizeof d \<le> length rest" using Cons.prems(2) by simp
  have step: "copy_element R s d (Some src) l c (Some (pre @ rest), k) =
                Inr (Some (?pre @ drop (sizeof d) rest), k + 1)"
    using Cons.prems(1,3) sz by (simp add: copy_element_def load_in_range store_append)
  have len: "length ?pre = (k + 1) * sizeof d" using Cons.prems(1) by simp
  have room: "length cs * sizeof d \<le> length (drop (sizeof d) rest)"
    using Cons.prems(2) by simp
  have rd: "\<forall>c\<in>set cs. (get_linear_offset R l c + 1) * sizeof s \<le> length src"
    using Cons.prems(3) by simp
  show ?case
    using Cons.IH [OF len room rd] step
    by (simp add: converted_def add.commute)
qed

lemma padded_source_closed:
  assumes "\<forall>c\<in>set (traversal (get_tensor R l)).
              (get_linear_offset R l c + 1) * sizeof s \<le> length src"
    and "length (traversal (get_tensor R l)) * sizeof d \<le> length dst"
  shows "convert_and_copy_padded_source R s d (Some src) (Some dst) l =
           Inr (Some (converted R s d src (map (get_linear_offset R l) (traversal (get_tensor R l)))
                        @ drop (length (traversal (get_tensor R l)) * sizeof d) dst))"
proof -
  let ?cs = "traversal (get_tensor R l)"
  have "iter (copy_element R s d (Some src) l) ?cs (Some ([] @ dst), 0) =
          Inr (Some ([] @ converted R s d src (map (get_linear_offset R l) ?cs)
                       @ drop (length ?cs * sizeof d) dst), 0 + length ?cs)"
    using assms by (intro iter_copy_element) simp_all
  then show ?thesis
    by (simp add: convert_and_copy_padded_source_def nested_loops_traversal)
qed

lemma no_pad_loop_closed:
  assumes "length pre = i * sizeof d"
    and "(n - i) * sizeof d \<le> length rest"
    and "n * sizeof s \<le> length src"
    and "i \<le> n"
  shows "no_pad_loop R s d src i n (pre @ rest) =
           Inr (pre @ converted R s d src [i..<n] @ drop ((n - i) * sizeof d) rest)"
  using assms
proof (induction "n - i" arbitrary: i pre rest)
  case 0
  then show ?case by (subst no_pad_loop.simps) (simp add: converted_def)
next
  case (Suc m)
  let ?v = "static_cast R s d (element s src i)"
  let ?pre = "pre @ to_bytes (sizeof d) ?v"
  from Suc.hyps(2) have lt: "i < n" and m: "m = n - (i + 1)" by simp_all
  have "(i + 1) * sizeof s \<le> n * sizeof s" using lt by (intro mult_le_mono1) simp
  then have ld: "load s src i = Inr (element s src i)"
    using Suc.prems(3) by (intro load_in_range) simp
  have "sizeof d \<le> (n - i) * sizeof d" using lt by simp
  then have sz: "sizeof d \<le> length rest" using Suc.prems(2) by (rule order_trans)
  have st: "store d (pre @ rest) i ?v = Inr (?pre @ drop (sizeof d) rest)"
    using Suc.prems(1) sz by (simp add: store_append)
  have len: "length ?pre = (i + 1) * sizeof d" using Suc.prems(1) by simp
  from lt obtain j where n: "n = Suc (i + j)" by (auto simp: less_iff_Suc_add)
  have "(n - i) * sizeof d = sizeof d + (n - (i + 1)) * sizeof d"
    unfolding n by simp
  then have room: "(n - (i + 1)) * sizeof d \<le> length (drop (sizeof d) rest)"
    and dr: "drop ((n - i) * sizeof d) rest = drop ((n - (i + 1)) * sizeof d) (drop (sizeof d) rest)"
    using Suc.prems(2) by (simp_all add: add.commute)
  have ih: "no_pad_loop R s d src (i + 1) n (?pre @ drop (sizeof d) rest) =
              Inr (?pre @ converted R s d src [i + 1..<n]
                     @ drop ((n - (i + 1)) * sizeof d) (drop (sizeof d) rest))"
    using Suc.hyps(1) [OF m len room Suc.prems(3)] lt by simp
  have up: "[i..<n] = i # [i + 1..<n]" using lt by (simp add: upt_rec)
  have "no_pad_loop R s d src i n (pre @ rest) =
          no_pad_loop R s d src (i + 1) n (?pre @ drop (sizeof d) rest)"
    by (subst no_pad_loop.simps) (simp add: lt ld st)
  also note ih
  also have "?pre @ converted R s d src [i + 1..<n]
                @ drop ((n - (i + 1)) * sizeof d) (drop (sizeof d) rest) =
             pre @ converted R s d src [i..<n] @ drop ((n - i) * sizeof d) rest"
    unfolding up dr by (simp add: converted_def)
  finally show ?case .
qed

section \<open>The table, the entry points and the examples\<close>

lemma find_case_same:
  "find_case et et = Some (s, d) \<Longrightarrow>
     (et = f32 \<and> s = c_float \<and> d = c_float) \<or> (et = f16 \<and> s = c_float16 \<and> d = c_float16)"
  by (cases et) (auto simp: find_case_def cases_table_def)

lemma find_case_f16: "find_case f16 f16 = Some (c_float16, c_float16)"
  by (simp add: find_case_def cases_table_def)

lemma find_case_f64: "find_case f64 f64 = None"
  by (simp add: find_case_def cases_table_def)

lemma acquire_eq:
  "acquire t mode st tr = (host_ptr t, (case t of RemoteTensorImpl et sh mem \<Rightarrow> Some mem | HostTensor et sh p \<Rightarrow> None),
      tr @ acquisition t mode st)"
  by (cases t) (simp_all add: acquire_def mem_lock_def host_ptr_def acquisition_def)

lemma reset_lock_eq:
  "reset_lock (case t of RemoteTensorImpl et sh mem \<Rightarrow> Some mem | HostTensor et sh p \<Rightarrow> None) tr
     = tr @ release t"
  by (cases t) (simp_all add: reset_lock_def mem_unlock_def release_def)

lemma memory_entry_eq:
  "convert_and_copy_memory R src dst st =
     (fst (convert_and_copy R (mem_data src) (data_type (get_layout src)) (host_ptr dst)
             (get_element_type dst) (shape_size (get_shape dst)) (get_layout src)),
      snd (convert_and_copy R (mem_data src) (data_type (get_layout src)) (host_ptr dst)
             (get_element_type dst) (shape_size (get_shape dst)) (get_layout src)),
      [Lock (mem_id src) read_mode st] @ acquisition dst write_mode st @ [Core_copy]
        @ release dst @ [Unlock (mem_id src)])"
  by (simp add: convert_and_copy_memory_def Let_def mem_lock_def acquire_eq reset_lock_eq
        mem_unlock_def mem_lock_default_def split: prod.splits)

lemma tensor_entry_eq:
  "convert_and_copy_tensor R src dst st =
     (fst (convert_and_copy R (host_ptr src) (get_element_type src) (host_ptr dst)
             (get_element_type dst) (shape_size (get_shape dst)) tensor_layout),
      snd (convert_and_copy R (host_ptr src) (get_element_type src) (host_ptr dst)
             (get_element_type dst) (shape_size (get_shape dst)) tensor_layout),
      acquisition src read_mode st @ acquisition dst write_mode st @ [Core_copy]
        @ release dst @ release src)"
  by (simp add: convert_and_copy_tensor_def Let_def acquire_eq reset_lock_eq
        mem_lock_default_def split: prod.splits)

lemma static_cast_layout_methods:
  "static_cast (R\<lparr>get_tensor := gt, get_linear_offset := off\<rparr>) = static_cast R"
  by (intro ext) (simp add: static_cast_def)

lemma no_pad_loop_layout_methods:
  "no_pad_loop (R\<lparr>get_tensor := gt, get_linear_offset := off\<rparr>) s d src i n dst =
   no_pad_loop R s d src i n dst"
proof (induction R s d src i n dst rule: no_pad_loop.induct)
  case (1 R s d src i n dst)
  show ?case
    unfolding no_pad_loop.simps [of _ s d src i n dst]
    using 1 by (auto simp: static_cast_layout_methods split: sum.splits)
qed

lemma unpadded_layout_methods:
  assumes "\<not> padding_bool (data_padding l)"
  shows "convert_and_copy (R\<lparr>get_tensor := gt, get_linear_offset := off\<rparr>) sp se dp de n l =
         convert_and_copy R sp se dp de n l"
  using assms
  by (simp add: convert_and_copy_def convert_and_copy_no_pad_def no_pad_loop_layout_methods
        split: option.splits)

lemma tensor_layout_unpadded: "\<not> padding_bool (data_padding tensor_layout)"
  by (simp add: tensor_layout_def padding_default_def padding_bool_def)

lemma tensor_layout_type: "data_type tensor_layout = undefined_t"
  by (simp add: tensor_layout_def)

lemma example_traversal:
  "map (get_linear_offset bfyx_runtime padded_layout) (traversal (get_tensor bfyx_runtime padded_layout))
     = [1, 2, 4, 5, 7, 8, 10, 11]"
  by (simp add: bfyx_runtime_def padded_layout_def traversal_def mk_tensor_def upto_rec1)

lemma example_traversal_length:
  "length (traversal (get_tensor bfyx_runtime padded_layout)) = 8"
  using arg_cong [OF example_traversal, of length] by simp

lemma example_padded: "padding_bool (data_padding padded_layout)"
  by (simp add: padded_layout_def padding_bool_def)

lemma example_reads:
  "\<forall>c\<in>set (traversal (get_tensor bfyx_runtime padded_layout)).
     (get_linear_offset bfyx_runtime padded_layout c + 1) * sizeof c_float16 \<le> length example_src"
proof
  fix c assume "c \<in> set (traversal (get_tensor bfyx_runtime padded_layout))"
  then have "get_linear_offset bfyx_runtime padded_layout c \<in> set [1, 2, 4, 5, 7, 8, 10, 11]"
    unfolding example_traversal [symmetric] by simp
  then show "(get_linear_offset bfyx_runtime padded_layout c + 1) * sizeof c_float16 \<le> length example_src"
    by (auto simp: example_src_def)
qed

lemma example_writes:
  "length (traversal (get_tensor bfyx_runtime padded_layout)) * sizeof c_float16 \<le> length example_dst"
  by (simp add: example_traversal_length example_dst_def)

lemma example_converted:
  "converted bfyx_runtime c_float16 c_float16 example_src
     (map (get_linear_offset bfyx_runtime padded_layout) (traversal (get_tensor bfyx_runtime padded_layout)))
   @ drop (length (traversal (get_tensor bfyx_runtime padded_layout)) * sizeof c_float16) example_dst
   = [1, 101, 2, 102, 4, 104, 5, 105, 7, 107, 8, 108, 10, 110, 11, 111, 255, 255]"
  by (simp add: example_traversal example_traversal_length converted_def element_def
        static_cast_def example_src_def example_dst_def)

lemma example_padded_source:
  "convert_and_copy_padded_source bfyx_runtime c_float16 c_float16 (Some example_src)
     (Some example_dst) padded_layout =
   Inr (Some [1, 101, 2, 102, 4, 104, 5, 105, 7, 107, 8, 108, 10, 110, 11, 111, 255, 255])"
  using padded_source_closed [OF example_reads example_writes] by (simp only: example_converted)

section \<open>The claims about the copier\<close>

text \<open>
  Claim C1, as amended. For every copy of at least one element with a type pair of the
  table and a padded source layout, the destination is written as a flat sequence: the
  logical index space is run through in the order batch, feature, spatial axis 3, 2, 1, 0
  (the last one fastest), each index is mapped by the layout's addressing function to a
  source offset, the source element there is cast to the destination type and written to
  the next destination slot; the bytes behind the last slot stay. The buffers hold what is
  read and written.
\<close>

theorem padded_copy_follows_traversal:
  assumes nz: "count \<noteq> 0"
    and tab: "find_case src_et dst_et = Some (s, d)"
    and pad: "padding_bool (data_padding l)"
    and src: "\<forall>c\<in>set (traversal (get_tensor R l)).
                (get_linear_offset R l c + 1) * sizeof s \<le> length src"
    and dst: "length (traversal (get_tensor R l)) * sizeof d \<le> length dst"
  shows "convert_and_copy R (Some src) src_et (Some dst) dst_et count l =
           (Inr (), Some (converted R s d src (map (get_linear_offset R l) (traversal (get_tensor R l)))
                          @ drop (length (traversal (get_tensor R l)) * sizeof d) dst))"
proof -
  have "convert_and_copy_padded_source R s d (Some src) (Some dst) l =
          Inr (Some (converted R s d src (map (get_linear_offset R l) (traversal (get_tensor R l)))
                       @ drop (length (traversal (get_tensor R l)) * sizeof d) dst))"
    using src dst by (rule padded_source_closed)
  with nz tab pad show ?thesis
    by (simp add: convert_and_copy_def)
qed

text \<open>
  The padded example: the offsets visited are 1, 2, 4, 5, 7, 8, 10, 11.
\<close>

theorem padded_copy_follows_traversal_witness:
  "(8::nat) \<noteq> 0 \<and> find_case f16 f16 = Some (c_float16, c_float16)
   \<and> padding_bool (data_padding padded_layout)
   \<and> map (get_linear_offset bfyx_runtime padded_layout)
        (traversal (get_tensor bfyx_runtime padded_layout)) = [1, 2, 4, 5, 7, 8, 10, 11]
   \<and> convert_and_copy bfyx_runtime (Some example_src) f16 (Some example_dst) f16 8 padded_layout =
       (Inr (), Some [1, 101, 2, 102, 4, 104, 5, 105, 7, 107, 8, 108, 10, 110, 11, 111, 255, 255])"
proof -
  have nz: "(8::nat) \<noteq> 0" by simp
  show ?thesis
    using padded_copy_follows_traversal
            [OF nz find_case_f16 example_padded example_reads example_writes]
    unfolding example_converted
    by (simp add: example_traversal find_case_f16 example_padded)
qed

text \<open>
  With an element count of 0 the copy returns before the table is consulted, and nothing
  is written though the layout's index space has eight elements.
\<close>

theorem padded_copy_zero_count_counterexample:
  "find_case f16 f16 = Some (c_float16, c_float16)
   \<and> padding_bool (data_padding padded_layout)
   \<and> convert_and_copy bfyx_runtime (Some example_src) f16 (Some example_dst) f16 0 padded_layout \<noteq>
       (Inr (), Some (converted bfyx_runtime c_float16 c_float16 example_src
                        (map (get_linear_offset bfyx_runtime padded_layout)
                           (traversal (get_tensor bfyx_runtime padded_layout)))
                      @ drop (length (traversal (get_tensor bfyx_runtime padded_layout)) * sizeof c_float16)
                          example_dst))"
  unfolding example_converted
  by (simp add: find_case_f16 example_padded convert_and_copy_def example_dst_def)

text \<open>
  Claim C2, as amended. For every copy of at least one element whose type pair is not in
  the table and that needs a conversion (the types differ, or the source layout is padded),
  the copy fails with the exception that names both element types, and the destination is
  as it was.
\<close>

theorem unsupported_pair_fails:
  assumes "count \<noteq> 0"
    and "find_case src_et dst_et = None"
    and "src_et \<noteq> dst_et \<or> padding_bool (data_padding l)"
  shows "convert_and_copy R src_ptr src_et dst_ptr dst_et count l =
           (Inl (unsupported src_et dst_et), dst_ptr)"
  using assms by (auto simp: convert_and_copy_def unsupported_def)

theorem unsupported_pair_fails_witness:
  "(2::nat) \<noteq> 0 \<and> find_case i8 u8 = None
   \<and> i8 \<noteq> u8
   \<and> convert_and_copy bfyx_runtime (Some [1, 2]) i8 (Some [7, 7]) u8 2 tensor_layout =
       (Inl (Exception [Txt ''[GPU] Unsupported element types combination for copy: '',
                        Et i8, Txt '' -> '', Et u8]), Some [7, 7])"
proof -
  have a: "(2::nat) \<noteq> 0" by simp
  have b: "find_case i8 u8 = None" by (simp add: find_case_def cases_table_def)
  have c: "i8 \<noteq> u8 \<or> padding_bool (data_padding tensor_layout)" by simp
  show ?thesis
    using unsupported_pair_fails [OF a b c, of bfyx_runtime "Some [1, 2]" "Some [7, 7]"] b
    by (simp add: unsupported_def)
qed

text \<open>
  With an element count of 0 the same pair does not fail.
\<close>

theorem unsupported_pair_zero_count_counterexample:
  "find_case i8 u8 = None \<and> i8 \<noteq> u8
   \<and> convert_and_copy bfyx_runtime (Some [1, 2]) i8 (Some [7, 7]) u8 0 tensor_layout =
       (Inr (), Some [7, 7])
   \<and> convert_and_copy bfyx_runtime (Some [1, 2]) i8 (Some [7, 7]) u8 0 tensor_layout \<noteq>
       (Inl (unsupported i8 u8), Some [7, 7])"
  by (simp add: find_case_def cases_table_def convert_and_copy_def)

text \<open>
  Claim C3. For every element count, when the two element types are the same and the
  source layout has no padding, the destination afterwards is the result of a raw copy of
  \<open>count * et_size et\<close> bytes from the source: these bytes are the source's, the rest are
  the destination's own. The buffers hold that many bytes and lie in a 64-bit address space.
\<close>

theorem same_type_unpadded_is_block_copy:
  assumes "\<not> padding_bool (data_padding l)"
    and "count * et_size et \<le> length src"
    and "count * et_size et \<le> length dst"
    and "length src < 2 ^ 64"
  shows "convert_and_copy R (Some src) et (Some dst) et count l =
           (Inr (), Some (take (count * et_size et) src @ drop (count * et_size et) dst))
         \<and> memcpy (Some dst) (Some src) (count * et_size et) =
             Inr (take (count * et_size et) src @ drop (count * et_size et) dst)"
proof -
  have "count * et_size et < 2 ^ 64" using assms(2,4) by (rule le_less_trans)
  then have m: "(count * et_size et) mod 2 ^ 64 = count * et_size et" by simp
  have c: "memcpy (Some dst) (Some src) (count * et_size et) =
             Inr (take (count * et_size et) src @ drop (count * et_size et) dst)"
    using assms(2,3) by (simp add: memcpy_def)
  show ?thesis
  proof (cases "count = 0")
    case True
    with c show ?thesis by (simp add: convert_and_copy_def)
  next
    case False
    with assms(1) c m show ?thesis by (simp add: convert_and_copy_def finish_def)
  qed
qed

theorem same_type_unpadded_is_block_copy_witness:
  "\<not> padding_bool (data_padding tensor_layout)
   \<and> 1 * et_size f32 \<le> length [1, 2, 3, 4, 5 :: byte]
   \<and> 1 * et_size f32 \<le> length [9, 9, 9, 9, 9, 9 :: byte]
   \<and> length [1, 2, 3, 4, 5 :: byte] < 2 ^ 64
   \<and> convert_and_copy bfyx_runtime (Some [1, 2, 3, 4, 5]) f32 (Some [9, 9, 9, 9, 9, 9]) f32 1
        tensor_layout = (Inr (), Some [1, 2, 3, 4, 9, 9])
   \<and> memcpy (Some [9, 9, 9, 9, 9, 9]) (Some [1, 2, 3, 4, 5]) 4 = Inr [1, 2, 3, 4, 9, 9]"
proof -
  have a: "1 * et_size f32 \<le> length [1, 2, 3, 4, 5 :: byte]" by simp
  have b: "1 * et_size f32 \<le> length [9, 9, 9, 9, 9, 9 :: byte]" by simp
  have c: "length [1, 2, 3, 4, 5 :: byte] < 2 ^ 64" by simp
  show ?thesis
    using same_type_unpadded_is_block_copy [OF tensor_layout_unpadded a b c, of bfyx_runtime] tensor_layout_unpadded
    by simp
qed

text \<open>
  Claim C4. For every copy with an unpadded source layout and a type pair of the table,
  and every index below the element count, the destination element with that index is the
  cast of the source element with the same index. The buffers hold \<open>count\<close> elements.
\<close>

theorem flat_conversion_elementwise:
  assumes tab: "find_case src_et dst_et = Some (s, d)"
    and pad: "\<not> padding_bool (data_padding l)"
    and src: "count * sizeof s \<le> length src"
    and dst: "count * sizeof d \<le> length dst"
    and addr: "length src < 2 ^ 64"
  shows "\<exists>dst'. convert_and_copy R (Some src) src_et (Some dst) dst_et count l = (Inr (), Some dst')
           \<and> length dst' = length dst
           \<and> (\<forall>i<count. load s src i = Inr (element s src i)
                 \<and> load d dst' i = Inr (static_cast R s d (element s src i)))"
proof -
  have rd: "load s src i = Inr (element s src i)" if "i < count" for i
  proof -
    have "(i + 1) * sizeof s \<le> count * sizeof s" using that by (intro mult_le_mono1) simp
    with src show ?thesis by (intro load_in_range) simp
  qed
  show ?thesis
  proof (cases "count = 0")
    case True
    then show ?thesis by (simp add: convert_and_copy_def)
  next
    case nz: False
    show ?thesis
    proof (cases "src_et = dst_et")
      case True
      with tab find_case_same [of src_et s d]
      have sd: "s = d" and sz: "et_size src_et = sizeof s" by auto
      let ?n = "count * sizeof s"
      let ?dst' = "take ?n src @ drop ?n dst"
      have "?n < 2 ^ 64" using src addr by (rule le_less_trans)
      then have "(count * et_size src_et) mod 2 ^ 64 = ?n" by (simp add: sz)
      then have "convert_and_copy R (Some src) src_et (Some dst) dst_et count l = (Inr (), Some ?dst')"
        using nz True pad src dst sd
        by (simp add: convert_and_copy_def memcpy_def finish_def)
      moreover have "length ?dst' = length dst" using src dst sd by simp
      moreover have "load d ?dst' i = Inr (static_cast R s d (element s src i))" if "i < count" for i
      proof -
        have "(i + 1) * sizeof s \<le> ?n" using that by (intro mult_le_mono1) simp
        from load_take_append [OF this src] sd show ?thesis by (simp add: static_cast_def)
      qed
      ultimately show ?thesis using rd by blast
    next
      case False
      let ?dst' = "converted R s d src [0..<count] @ drop (count * sizeof d) dst"
      have "no_pad_loop R s d src 0 count ([] @ dst) =
              Inr ([] @ converted R s d src [0..<count] @ drop ((count - 0) * sizeof d) dst)"
        using dst src by (intro no_pad_loop_closed) simp_all
      then have "convert_and_copy R (Some src) src_et (Some dst) dst_et count l = (Inr (), Some ?dst')"
        using nz False pad tab
        by (simp add: convert_and_copy_def convert_and_copy_no_pad_def finish_def)
      moreover have "length ?dst' = length dst" using dst by simp
      moreover have "load d ?dst' i = Inr (static_cast R s d (element s src i))" if "i < count" for i
        using that load_converted [of i "[0..<count]" d R s src] by simp
      ultimately show ?thesis using rd by blast
    qed
  qed
qed

text \<open>
  Two 32-bit integers, \<open>-2\<close> and \<open>5\<close>, widened to 64 bits.
\<close>

theorem flat_conversion_elementwise_witness:
  "find_case i32 i64 = Some (c_int32, c_int64)
   \<and> \<not> padding_bool (data_padding tensor_layout)
   \<and> 2 * sizeof c_int32 \<le> length [254, 255, 255, 255, 5, 0, 0, 0 :: byte]
   \<and> 2 * sizeof c_int64 \<le> length (replicate 17 (9 :: byte))
   \<and> (\<exists>dst'. convert_and_copy bfyx_runtime (Some [254, 255, 255, 255, 5, 0, 0, 0]) i32
                 (Some (replicate 17 9)) i64 2 tensor_layout = (Inr (), Some dst')
          \<and> length dst' = 17
          \<and> load c_int64 dst' 0 = Inr 18446744073709551614
          \<and> load c_int64 dst' 1 = Inr 5)"
proof -
  let ?src = "[254, 255, 255, 255, 5, 0, 0, 0 :: byte]"
  have a: "find_case i32 i64 = Some (c_int32, c_int64)" by (simp add: find_case_def cases_table_def)
  have b: "2 * sizeof c_int32 \<le> length ?src" by simp
  have c: "2 * sizeof c_int64 \<le> length (replicate 17 (9 :: byte))" by simp
  have d: "length ?src < 2 ^ 64" by simp
  have e0: "static_cast bfyx_runtime c_int32 c_int64 (element c_int32 ?src 0) = 18446744073709551614"
    by (simp add: static_cast_def int_cast_def element_def)
  have e1: "static_cast bfyx_runtime c_int32 c_int64 (element c_int32 ?src 1) = 5"
    by (simp add: static_cast_def int_cast_def element_def)
  from flat_conversion_elementwise [OF a tensor_layout_unpadded b c d, of bfyx_runtime]
  obtain dst' where r: "convert_and_copy bfyx_runtime (Some ?src) i32 (Some (replicate 17 9)) i64 2
        tensor_layout = (Inr (), Some dst')"
    and l: "length dst' = length (replicate 17 (9 :: byte))"
    and v: "\<forall>i<2. load c_int32 ?src i = Inr (element c_int32 ?src i)
              \<and> load c_int64 dst' i = Inr (static_cast bfyx_runtime c_int32 c_int64 (element c_int32 ?src i))"
    by blast
  from v have "load c_int64 dst' 0 = Inr 18446744073709551614" "load c_int64 dst' 1 = Inr 5"
    using e0 e1 by auto
  with r l a b c tensor_layout_unpadded show ?thesis by auto
qed

text \<open>
  Claim C5, as amended. For every copy of at least one element with the same source and
  destination type: without padding the block copy runs, whether or not the table lists
  the pair; with a padded source layout the table is consulted, so that the pairs it lists
  (\<open>f32\<close> and \<open>f16\<close> with themselves) go through the padded conversion loop and a pair
  it does not list, such as \<open>f64\<close> with itself, fails with the exception for an
  unsupported pair.
\<close>

theorem fast_path_precedes_table:
  assumes "count \<noteq> 0"
  shows "(\<not> padding_bool (data_padding l) \<longrightarrow>
            convert_and_copy R src_ptr et dst_ptr et count l =
              finish dst_ptr (memcpy dst_ptr src_ptr ((count * et_size et) mod 2 ^ 64)))
       \<and> (padding_bool (data_padding l) \<longrightarrow>
            (case find_case et et of
               Some (s, d) \<Rightarrow>
                 convert_and_copy R src_ptr et dst_ptr et count l =
                   (case convert_and_copy_padded_source R s d src_ptr dst_ptr l of
                      Inl e \<Rightarrow> (Inl e, dst_ptr) | Inr p \<Rightarrow> (Inr (), p))
             | None \<Rightarrow>
                 convert_and_copy R src_ptr et dst_ptr et count l =
                   (Inl (unsupported et et), dst_ptr)))
       \<and> find_case f32 f32 = Some (c_float, c_float)
       \<and> find_case f16 f16 = Some (c_float16, c_float16)
       \<and> find_case f64 f64 = None"
  using assms
  by (auto simp: convert_and_copy_def unsupported_def find_case_def cases_table_def
           split: option.splits)

theorem fast_path_precedes_table_witness:
  "(1::nat) \<noteq> 0
   \<and> \<not> padding_bool (data_padding tensor_layout)
   \<and> convert_and_copy bfyx_runtime (Some example_src) f32 (Some example_dst) f32 1 tensor_layout =
       finish (Some example_dst) (memcpy (Some example_dst) (Some example_src) 4)
   \<and> padding_bool (data_padding padded_layout)
   \<and> convert_and_copy bfyx_runtime (Some example_src) f16 (Some example_dst) f16 1 padded_layout =
       (case convert_and_copy_padded_source bfyx_runtime c_float16 c_float16 (Some example_src)
               (Some example_dst) padded_layout of
          Inl e \<Rightarrow> (Inl e, Some example_dst) | Inr p \<Rightarrow> (Inr (), p))
   \<and> convert_and_copy bfyx_runtime (Some example_src) f64 (Some example_dst) f64 1 padded_layout =
       (Inl (unsupported f64 f64), Some example_dst)"
proof -
  have nz: "(1::nat) \<noteq> 0" by simp
  show ?thesis
    using fast_path_precedes_table [OF nz, of tensor_layout bfyx_runtime "Some example_src" f32 "Some example_dst"]
      fast_path_precedes_table [OF nz, of padded_layout bfyx_runtime "Some example_src" f16 "Some example_dst"]
      fast_path_precedes_table [OF nz, of padded_layout bfyx_runtime "Some example_src" f64 "Some example_dst"]
    by (simp add: tensor_layout_unpadded example_padded find_case_f16 find_case_f64)
qed

text \<open>
  With an element count of 0, \<open>f64\<close> to \<open>f64\<close> with a padded layout does not fail.
\<close>

theorem same_type_padded_zero_count_counterexample:
  "padding_bool (data_padding padded_layout) \<and> find_case f64 f64 = None
   \<and> convert_and_copy bfyx_runtime (Some example_src) f64 (Some example_dst) f64 0 padded_layout =
       (Inr (), Some example_dst)
   \<and> convert_and_copy bfyx_runtime (Some example_src) f64 (Some example_dst) f64 0 padded_layout \<noteq>
       (Inl (unsupported f64 f64), Some example_dst)"
  by (simp add: example_padded find_case_f64 convert_and_copy_def)

text \<open>
  Claim C9. With an element count of 0 the copy returns normally and the destination is
  as it was, whatever the pointers, the element types and the layout are.
\<close>

theorem zero_count_is_noop:
  "convert_and_copy R src_ptr src_et dst_ptr dst_et 0 l = (Inr (), dst_ptr)"
  by (simp add: convert_and_copy_def)

text \<open>
  Claim C8. For every call of either entry point the trace is: the lock of the source
  memory acquired in read mode (for a tensor, only when it is a remote tensor), the lock
  of the destination's memory acquired in write mode when the destination is a remote
  tensor, the core copy, and then one release for each acquisition, in the reverse order.
  This holds however the core copy ends; a tensor that is not remote is not locked.
\<close>

theorem scoped_locks_trace:
  "snd (snd (convert_and_copy_memory R msrc dst st)) =
     [Lock (mem_id msrc) read_mode st] @ acquisition dst write_mode st @ [Core_copy]
       @ release dst @ [Unlock (mem_id msrc)]
   \<and> snd (snd (convert_and_copy_tensor R src dst st)) =
     acquisition src read_mode st @ acquisition dst write_mode st @ [Core_copy]
       @ release dst @ release src"
  by (simp add: memory_entry_eq tensor_entry_eq)

text \<open>
  A call that fails with an unsupported pair, and a call with a host source.
\<close>

theorem scoped_locks_trace_witness:
  "fst (convert_and_copy_memory bfyx_runtime example_memory example_remote 7) = Inl (unsupported f16 i8)
   \<and> snd (snd (convert_and_copy_memory bfyx_runtime example_memory example_remote 7)) =
       [Lock 1 read_mode 7, Lock 2 write_mode 7, Core_copy, Unlock 2, Unlock 1]
   \<and> snd (snd (convert_and_copy_tensor bfyx_runtime (HostTensor i8 [2] (Some [1, 2])) example_remote 7)) =
       [Lock 2 write_mode 7, Core_copy, Unlock 2]"
proof -
  have "fst (convert_and_copy_memory bfyx_runtime example_memory example_remote 7) =
          Inl (unsupported f16 i8)"
    by (simp add: memory_entry_eq example_memory_def example_remote_def padded_layout_def
          shape_size_def convert_and_copy_def padding_bool_def find_case_def cases_table_def
          unsupported_def)
  then show ?thesis
    using scoped_locks_trace [of bfyx_runtime example_memory example_remote 7
            "HostTensor i8 [2] (Some [1, 2])"]
    by (simp add: acquisition_def release_def example_memory_def example_remote_def)
qed

text \<open>
  Claim C10. The entry point for two tensors always hands the core copy the layout it
  builds itself, which has no padding and no element type, also for a remote source tensor;
  its result does not
  depend on the layout methods that only the padded loop calls. The entry point for a
  memory handle hands over the handle's layout and runs the padded loop when that layout
  is padded, the pair is in the table and there is at least one element.
\<close>

theorem tensor_entry_never_padded:
  "(fst (convert_and_copy_tensor R src dst st), fst (snd (convert_and_copy_tensor R src dst st))) =
      convert_and_copy R (host_ptr src) (get_element_type src) (host_ptr dst)
        (get_element_type dst) (shape_size (get_shape dst)) tensor_layout
   \<and> \<not> padding_bool (data_padding tensor_layout)
   \<and> data_type tensor_layout = undefined_t
   \<and> convert_and_copy_tensor (R\<lparr>get_tensor := gt, get_linear_offset := off\<rparr>) src dst st =
       convert_and_copy_tensor R src dst st
   \<and> (shape_size (get_shape dst) \<noteq> 0 \<and> padding_bool (data_padding (get_layout msrc))
        \<and> find_case (data_type (get_layout msrc)) (get_element_type dst) = Some (s, d) \<longrightarrow>
      (fst (convert_and_copy_memory R msrc dst st), fst (snd (convert_and_copy_memory R msrc dst st))) =
        (case convert_and_copy_padded_source R s d (mem_data msrc) (host_ptr dst) (get_layout msrc) of
           Inl e \<Rightarrow> (Inl e, host_ptr dst) | Inr p \<Rightarrow> (Inr (), p)))"
proof -
  have "convert_and_copy_tensor (R\<lparr>get_tensor := gt, get_linear_offset := off\<rparr>) src dst st =
       convert_and_copy_tensor R src dst st"
    unfolding tensor_entry_eq
    by (simp add: unpadded_layout_methods [OF tensor_layout_unpadded])
  moreover have "shape_size (get_shape dst) \<noteq> 0 \<and> padding_bool (data_padding (get_layout msrc))
        \<and> find_case (data_type (get_layout msrc)) (get_element_type dst) = Some (s, d) \<longrightarrow>
      (fst (convert_and_copy_memory R msrc dst st), fst (snd (convert_and_copy_memory R msrc dst st))) =
        (case convert_and_copy_padded_source R s d (mem_data msrc) (host_ptr dst) (get_layout msrc) of
           Inl e \<Rightarrow> (Inl e, host_ptr dst) | Inr p \<Rightarrow> (Inr (), p))"
    by (simp add: memory_entry_eq convert_and_copy_def)
  ultimately show ?thesis
    by (simp add: tensor_entry_eq tensor_layout_unpadded tensor_layout_type)
qed

text \<open>
  The same padded memory through both entry points: the memory handle's bytes are
  gathered by the padded loop, the remote tensor's are copied as a block.
\<close>

theorem tensor_entry_never_padded_witness:
  "shape_size (get_shape (HostTensor f16 [8] (Some example_dst))) \<noteq> 0
   \<and> padding_bool (data_padding (get_layout example_memory))
   \<and> find_case (data_type (get_layout example_memory))
        (get_element_type (HostTensor f16 [8] (Some example_dst))) = Some (c_float16, c_float16)
   \<and> (fst (convert_and_copy_memory bfyx_runtime example_memory
              (HostTensor f16 [8] (Some example_dst)) 7),
       fst (snd (convert_and_copy_memory bfyx_runtime example_memory
              (HostTensor f16 [8] (Some example_dst)) 7))) =
      (Inr (), Some [1, 101, 2, 102, 4, 104, 5, 105, 7, 107, 8, 108, 10, 110, 11, 111, 255, 255])
   \<and> (fst (convert_and_copy_tensor bfyx_runtime (RemoteTensorImpl f16 [8] example_memory)
              (HostTensor f16 [8] (Some example_dst)) 7),
       fst (snd (convert_and_copy_tensor bfyx_runtime (RemoteTensorImpl f16 [8] example_memory)
              (HostTensor f16 [8] (Some example_dst)) 7))) =
      (Inr (), Some [0, 100, 1, 101, 2, 102, 3, 103, 4, 104, 5, 105, 6, 106, 7, 107, 255, 255])"
proof -
  have flat: "convert_and_copy bfyx_runtime (Some example_src) f16 (Some example_dst) f16 8 tensor_layout =
      (Inr (), Some [0, 100, 1, 101, 2, 102, 3, 103, 4, 104, 5, 105, 6, 106, 7, 107, 255, 255])"
    by (simp add: convert_and_copy_def tensor_layout_unpadded memcpy_def finish_def
          example_src_def example_dst_def)
  have lay: "get_layout example_memory = padded_layout" "mem_data example_memory = Some example_src"
    by (simp_all add: example_memory_def)
  have dt: "data_type padded_layout = f16" by (simp add: padded_layout_def)
  show ?thesis
    using tensor_entry_never_padded
      [where R = bfyx_runtime and src = "RemoteTensorImpl f16 [8] example_memory"
         and dst = "HostTensor f16 [8] (Some example_dst)" and st = 7
         and msrc = example_memory and s = c_float16 and d = c_float16
         and gt = "get_tensor bfyx_runtime" and off = "get_linear_offset bfyx_runtime"]
    by (simp add: flat example_padded_source example_padded find_case_f16 lay dt
          host_ptr_def shape_size_def)
qed

section \<open>The claims about the rewrite\<close>

lemma static_cast_int64_small: "n < 2 ^ 63 \<Longrightarrow> static_cast_int64 n = int n"
  by (simp add: static_cast_int64_def)

text \<open>
  Claim C6. For a matched fully-connected node that is not vetoed, with a data input of
  rank above 2 whose last axis is below \<open>2 ^ 63\<close> (so that the conversion to a signed
  64-bit value keeps it) and weights of rank at least 1: the callback returns true; the graph gains a
  constant \<open>[-1, K]\<close> with \<open>K\<close> the last axis of the data shape, a reshape of the data
  input by it named \<open><name>/Reshape\<close>, and a fully-connected node over the reshape, the
  original weights and bias with output shape \<open>[I, O]\<close>, \<open>I\<close> the first axis of the
  reshape's shape and \<open>O\<close> the first axis of the weights' shape. If \<open>[I, O]\<close> differs
  from the original output shape, a reshape of the new node to the original shape is
  appended and takes the original name, the original node is renamed \<open><name>/FC\<close>, and
  every node that read the original node reads the trailing reshape; otherwise the new
  fully-connected node takes the original name and every node that read the original node
  reads it.
\<close>

theorem fully_connected_rewrite:
  assumes root: "lookup g root = Some fc"
    and fc: "op fc = FullyConnected d_in w_in b_in"
    and veto: "\<not> transformation_callback fc"
    and data: "lookup g d_in = Some data"
    and rank: "2 < length (out_shape data)"
    and dim: "last (out_shape data) < 2 ^ 63"
    and weights: "lookup g w_in = Some weights" "out_shape weights = O_dim # ws"
    and inferred: "infer (out_shape data) [- 1, int (last (out_shape data))] True = I_dim # ds"
    and acyclic: "d_in \<noteq> root" "w_in \<noteq> root" "b_in \<noteq> root"
  shows "\<exists>g'. callback transformation_callback infer g root = Inr (True, g') \<and>
     (let n = length g; name = friendly_name fc in
        lookup g' n = Some \<lparr>op = Constant [- 1, int (last (out_shape data))], out_shape = [2],
                             friendly_name = []\<rparr>
      \<and> lookup g' (n + 1) = Some \<lparr>op = Reshape d_in n True, out_shape = I_dim # ds,
                                   friendly_name = name @ ''/Reshape''\<rparr>
      \<and> map_option op (lookup g' (n + 2)) = Some (FullyConnected (n + 1) w_in b_in)
      \<and> map_option out_shape (lookup g' (n + 2)) = Some [I_dim, O_dim]
      \<and> (if out_shape fc \<noteq> [I_dim, O_dim]
         then length g' = n + 5
            \<and> lookup g' (n + 3) = Some \<lparr>op = Constant (map int (out_shape fc)),
                   out_shape = [length (out_shape fc)], friendly_name = []\<rparr>
            \<and> lookup g' (n + 4) = Some \<lparr>op = Reshape (n + 2) (n + 3) True,
                   out_shape = infer [I_dim, O_dim] (map int (out_shape fc)) True,
                   friendly_name = name\<rparr>
            \<and> map_option friendly_name (lookup g' root) = Some (name @ ''/FC'')
            \<and> (\<forall>j<n. op (g' ! j) = redirect root (n + 4) (op (g ! j)))
         else length g' = n + 3
            \<and> map_option friendly_name (lookup g' (n + 2)) = Some name
            \<and> (\<forall>j<n. op (g' ! j) = redirect root (n + 2) (op (g ! j)))))"
proof -
  from root have r: "root < length g" by (simp add: lookup_def split: if_splits)
  from rank have ne: "out_shape data \<noteq> []" "length (out_shape data) \<noteq> 2" by auto
  from dim have k: "static_cast_int64 (last (out_shape data)) = int (last (out_shape data))"
    by (rule static_cast_int64_small)
  show ?thesis
  proof (cases "out_shape fc = [I_dim, O_dim]")
    case True
    then show ?thesis
      using root fc veto data ne weights inferred acyclic r
      by (simp add: callback_def k Let_def make_node_def set_friendly_name_def replace_node_def
            lookup_def nth_append redirect_id_def)
  next
    case False
    then show ?thesis
      using root fc veto data ne weights inferred acyclic r
      by (auto simp: callback_def k Let_def make_node_def set_friendly_name_def replace_node_def
            reshapeTo_def lookup_def nth_append redirect_id_def nth_list_update numeral_eq_Suc)
  qed
qed

text \<open>
  A data input of shape \<open>[2, 3, 4]\<close> with weights \<open>[5, 4]\<close>: once with the original
  output shape \<open>[2, 3, 5]\<close>, once with \<open>[6, 5]\<close>.
\<close>

theorem fully_connected_rewrite_witness:
  "lookup example_graph 3 =
     Some \<lparr>op = FullyConnected 0 1 2, out_shape = [2, 3, 5], friendly_name = ''fc''\<rparr>
   \<and> lookup example_graph 0 = Some \<lparr>op = Parameter, out_shape = [2, 3, 4], friendly_name = ''data''\<rparr>
   \<and> lookup example_graph 1 = Some \<lparr>op = Constant [], out_shape = [5, 4], friendly_name = ''weights''\<rparr>
   \<and> last [2, 3, 4 :: nat] < 2 ^ 63
   \<and> example_infer [2, 3, 4] [- 1, 4] True = [6, 4]
   \<and> (\<exists>g'. callback (\<lambda>n. False) example_infer example_graph 3 = Inr (True, g')
        \<and> length g' = 10
        \<and> lookup g' 5 = Some \<lparr>op = Constant [- 1, 4], out_shape = [2], friendly_name = []\<rparr>
        \<and> lookup g' 6 = Some \<lparr>op = Reshape 0 5 True, out_shape = [6, 4], friendly_name = ''fc/Reshape''\<rparr>
        \<and> map_option op (lookup g' 7) = Some (FullyConnected 6 1 2)
        \<and> map_option out_shape (lookup g' 7) = Some [6, 5]
        \<and> lookup g' 8 = Some \<lparr>op = Constant [2, 3, 5], out_shape = [3], friendly_name = []\<rparr>
        \<and> lookup g' 9 = Some \<lparr>op = Reshape 7 8 True, out_shape = [2, 3, 5], friendly_name = ''fc''\<rparr>
        \<and> map_option friendly_name (lookup g' 3) = Some ''fc/FC''
        \<and> op (g' ! 4) = Other [9])
   \<and> (\<exists>g'. callback (\<lambda>n. False) example_infer example_graph2 3 = Inr (True, g')
        \<and> length g' = 8
        \<and> map_option op (lookup g' 7) = Some (FullyConnected 6 1 2)
        \<and> map_option friendly_name (lookup g' 7) = Some ''fc''
        \<and> op (g' ! 4) = Other [7])"
proof -
  let ?fc = "\<lparr>op = FullyConnected 0 1 2, out_shape = [2, 3, 5], friendly_name = ''fc''\<rparr>"
  let ?fc2 = "\<lparr>op = FullyConnected 0 1 2, out_shape = [6, 5], friendly_name = ''fc''\<rparr>"
  let ?data = "\<lparr>op = Parameter, out_shape = [2, 3, 4], friendly_name = ''data''\<rparr>"
  let ?weights = "\<lparr>op = Constant [], out_shape = [5, 4], friendly_name = ''weights''\<rparr>"
  have i: "example_infer [2, 3, 4] [- 1, 4] True = [6, 4]"
    and i': "example_infer [6, 5] [2, 3, 5] True = [2, 3, 5]"
    by (simp_all add: example_infer_def)
  have h: "lookup example_graph 3 = Some ?fc" "lookup example_graph 0 = Some ?data"
    "lookup example_graph 1 = Some ?weights" "length example_graph = 5"
    "lookup example_graph (Suc 0) = Some ?weights"
    by (simp_all add: lookup_def example_graph_def)
  have h2: "lookup example_graph2 3 = Some ?fc2" "lookup example_graph2 0 = Some ?data"
    "lookup example_graph2 1 = Some ?weights" "length example_graph2 = 5"
    "lookup example_graph2 (Suc 0) = Some ?weights"
    by (simp_all add: lookup_def example_graph2_def)
  obtain g' where r: "callback (\<lambda>n. False) example_infer example_graph 3 = Inr (True, g')"
    and p: "length g' = 10"
      "lookup g' 5 = Some \<lparr>op = Constant [- 1, 4], out_shape = [2], friendly_name = []\<rparr>"
      "lookup g' 6 = Some \<lparr>op = Reshape 0 5 True, out_shape = [6, 4], friendly_name = ''fc/Reshape''\<rparr>"
      "map_option op (lookup g' 7) = Some (FullyConnected 6 1 2)"
      "map_option out_shape (lookup g' 7) = Some [6, 5]"
      "lookup g' 8 = Some \<lparr>op = Constant [2, 3, 5], out_shape = [3], friendly_name = []\<rparr>"
      "lookup g' 9 = Some \<lparr>op = Reshape 7 8 True, out_shape = [2, 3, 5], friendly_name = ''fc''\<rparr>"
      "map_option friendly_name (lookup g' 3) = Some ''fc/FC''"
    and q: "\<forall>j<5. op (g' ! j) = redirect 3 9 (op (example_graph ! j))"
    using fully_connected_rewrite [where g = example_graph and root = 3 and fc = ?fc and d_in = 0 and w_in = 1
        and b_in = 2 and transformation_callback = "\<lambda>n. False" and data = ?data
        and weights = ?weights and O_dim = 5 and ws = "[4]" and infer = example_infer
        and I_dim = 6 and ds = "[4]"]
    by (auto simp: h i i' Let_def)
  from q have q4: "op (g' ! 4) = Other [9]"
    by (simp add: example_graph_def redirect_id_def)
  obtain g2 where r2: "callback (\<lambda>n. False) example_infer example_graph2 3 = Inr (True, g2)"
    and p2: "length g2 = 8"
      "map_option op (lookup g2 7) = Some (FullyConnected 6 1 2)"
      "map_option friendly_name (lookup g2 7) = Some ''fc''"
    and q2: "\<forall>j<5. op (g2 ! j) = redirect 3 7 (op (example_graph2 ! j))"
    using fully_connected_rewrite [where g = example_graph2 and root = 3 and fc = ?fc2 and d_in = 0 and w_in = 1
        and b_in = 2 and transformation_callback = "\<lambda>n. False" and data = ?data
        and weights = ?weights and O_dim = 5 and ws = "[4]" and infer = example_infer
        and I_dim = 6 and ds = "[4]"]
    by (auto simp: h2 i Let_def)
  from q2 have q24: "op (g2 ! 4) = Other [7]"
    by (simp add: example_graph2_def redirect_id_def)
  have dm: "last [2, 3, 4 :: nat] < 2 ^ 63" by simp
  from r p q4 r2 p2 q24 h(1-3) i dm show ?thesis by blast
qed




end
